theory Spec2Isabelle
  imports Main "HOL-Library.Multiset"
begin

section \<open>JavaScript values\<close>

text \<open>
  The scrapers of \<open>src/index.js\<close> read JSON payloads and feed objects and build plain
  objects from them. A value is one of the JSON shapes or \<open>undefined\<close>. Numbers are
  restricted to integers; an object is its list of bindings, the first binding of a key
  counting.
\<close>

datatype json =
    JUndefined
  | JNull
  | JBool bool
  | JNum int
  | JStr string
  | JArr "json list"
  | JObj "(string \<times> json) list"

text \<open>
  What a promise can be rejected with: the two exceptions the language itself throws in
  this code, and a failure of an external call (network, feed parser, browser), with its
  message.
\<close>

datatype error = TypeError | RangeError | TransportError string

text \<open>The outcome of a promise, as \<open>Promise.allSettled\<close> reports it.\<close>

datatype 'a settled = Fulfilled 'a | Rejected error

definition settle :: "error + 'a \<Rightarrow> 'a settled" where
  "settle r = (case r of Inl e \<Rightarrow> Rejected e | Inr v \<Rightarrow> Fulfilled v)"

definition bind_r :: "error + 'a \<Rightarrow> ('a \<Rightarrow> error + 'b) \<Rightarrow> error + 'b" where
  "bind_r m f = (case m of Inl e \<Rightarrow> Inl e | Inr v \<Rightarrow> f v)"

text \<open>\<open>try { body } catch (error) { handler }\<close>.\<close>

definition try_catch :: "error + 'a \<Rightarrow> (error \<Rightarrow> error + 'a) \<Rightarrow> error + 'a" where
  "try_catch body handler = (case body of Inl e \<Rightarrow> handler e | Inr v \<Rightarrow> Inr v)"

fun truthy :: "json \<Rightarrow> bool" where
  "truthy JUndefined = False"
| "truthy JNull = False"
| "truthy (JBool b) = b"
| "truthy (JNum n) = (n \<noteq> 0)"
| "truthy (JStr s) = (s \<noteq> [])"
| "truthy (JArr xs) = True"
| "truthy (JObj kvs) = True"

fun nullish :: "json \<Rightarrow> bool" where
  "nullish JUndefined = True"
| "nullish JNull = True"
| "nullish v = False"

text \<open>\<open>a || b\<close>.\<close>

definition or_else :: "json \<Rightarrow> json \<Rightarrow> json" where
  "or_else a b = (if truthy a then a else b)"

text \<open>
  \<open>v.k\<close>: reading a property of \<open>undefined\<close> or \<open>null\<close> throws; a key an object
  does not have reads as \<open>undefined\<close>. Of the keys the scrapers read none is a
  member of a number, a boolean or an array, and only \<open>link\<close> is one of a string (a
  method of its prototype); the items of a parsed feed are objects, so that case is left
  out and all of these read as \<open>undefined\<close>.
\<close>

fun get :: "json \<Rightarrow> string \<Rightarrow> error + json" where
  "get JUndefined k = Inl TypeError"
| "get JNull k = Inl TypeError"
| "get (JObj kvs) k = Inr (case map_of kvs k of Some v \<Rightarrow> v | None \<Rightarrow> JUndefined)"
| "get v k = Inr JUndefined"

text \<open>
  \<open>v.slice(0, 20)\<close>: arrays and strings have the method; on anything else the member
  is not a function and the call throws.
\<close>

fun slice_0_20 :: "json \<Rightarrow> error + json" where
  "slice_0_20 (JArr xs) = Inr (JArr (take 20 xs))"
| "slice_0_20 (JStr s) = Inr (JStr (take 20 s))"
| "slice_0_20 v = Inl TypeError"

text \<open>\<open>v.substring(0, 200)\<close>: a method of strings only.\<close>

fun substring_0_200 :: "json \<Rightarrow> error + json" where
  "substring_0_200 (JStr s) = Inr (JStr (take 200 s))"
| "substring_0_200 v = Inl TypeError"

text \<open>
  \<open>Array.prototype.map\<close> with a callback that may throw: the first exception ends the
  traversal.
\<close>

fun map_r :: "('a \<Rightarrow> error + 'b) \<Rightarrow> 'a list \<Rightarrow> error + 'b list" where
  "map_r f [] = Inr []"
| "map_r f (x # xs) =
     (case f x of
        Inl e \<Rightarrow> Inl e
      | Inr y \<Rightarrow> (case map_r f xs of Inl e \<Rightarrow> Inl e | Inr ys \<Rightarrow> Inr (y # ys)))"

text \<open>\<open>v.map(f)\<close>: a method of arrays only.\<close>

fun js_map :: "(json \<Rightarrow> error + 'b) \<Rightarrow> json \<Rightarrow> error + 'b list" where
  "js_map f (JArr xs) = map_r f xs"
| "js_map f v = Inl TypeError"

text \<open>The first piece of \<open>s.split(sep)\<close>, for a separator that is not empty.\<close>

fun split_head :: "string \<Rightarrow> string \<Rightarrow> string" where
  "split_head sep [] = []"
| "split_head sep (c # cs) =
     (if take (length sep) (c # cs) = sep then [] else c # split_head sep cs)"

text \<open>\<open>s.trim()\<close> on the white space of the 8-bit range.\<close>

definition is_space :: "char \<Rightarrow> bool" where
  "is_space c = (of_char c \<in> {9, 10, 11, 12, 13, 32, 160 :: nat})"

definition trim :: "string \<Rightarrow> string" where
  "trim s = rev (dropWhile is_space (rev (dropWhile is_space s)))"

text \<open>Decimal digits of a number, for template literals.\<close>

function nat_digits :: "nat \<Rightarrow> string" where
  "nat_digits n =
     (if n < 10 then [char_of (48 + n)]
      else nat_digits (n div 10) @ [char_of (48 + n mod 10)])"
  by pat_completeness auto
termination
  by (relation "measure id") auto

definition int_digits :: "int \<Rightarrow> string" where
  "int_digits i = (if i < 0 then CHR ''-'' # nat_digits (nat (- i)) else nat_digits (nat i))"

fun join_comma :: "string list \<Rightarrow> string" where
  "join_comma [] = []"
| "join_comma [s] = s"
| "join_comma (s # t # ss) = s @ '','' @ join_comma (t # ss)"

text \<open>
  The string a template literal \<open>`${v}`\<close> inserts. An array joins its elements with
  commas, \<open>undefined\<close> and \<open>null\<close> elements giving the empty string.
\<close>

fun to_string :: "json \<Rightarrow> string" where
  "to_string JUndefined = ''undefined''"
| "to_string JNull = ''null''"
| "to_string (JBool b) = (if b then ''true'' else ''false'')"
| "to_string (JNum n) = int_digits n"
| "to_string (JStr s) = s"
| "to_string (JArr xs) = join_comma (map (\<lambda>x. if nullish x then [] else to_string x) xs)"
| "to_string (JObj kvs) = ''[object Object]''"

text \<open>
  The built-in \<open>Date\<close>, taken as a parameter: \<open>time_value v\<close> is the time value of
  \<open>new Date(v)\<close> in milliseconds, \<open>None\<close> for an invalid date (whose time value is
  \<open>NaN\<close>); \<open>toISOString t\<close> is the ISO text of a valid time value.
\<close>

record js_date =
  time_value :: "json \<Rightarrow> int option"
  toISOString :: "int \<Rightarrow> string"

text \<open>
  \<open>new Date(v).toISOString().split('T')[0]\<close>; \<open>toISOString\<close> throws a RangeError on
  an invalid date.
\<close>

definition iso_day :: "js_date \<Rightarrow> json \<Rightarrow> error + json" where
  "iso_day env v =
     (case time_value env v of
        None \<Rightarrow> Inl RangeError
      | Some t \<Rightarrow> Inr (JStr (split_head ''T'' (toISOString env t))))"

section \<open>Events\<close>

text \<open>
  The object every scraper builds. A key that a scraper does not set reads as
  \<open>undefined\<close>. \<open>website\<close> is a string literal in every scraper.
\<close>

record event =
  website :: string
  event_name :: json
  event_link :: json
  description :: json
  start_date :: json
  end_date :: json
  location :: json
  tags :: json
  prize :: json
  source :: json

definition blank_event :: "string \<Rightarrow> event" where
  "blank_event w =
     \<lparr>website = w, event_name = JUndefined, event_link = JUndefined,
      description = JUndefined, start_date = JUndefined, end_date = JUndefined,
      location = JUndefined, tags = JUndefined, prize = JUndefined,
      source = JUndefined\<rparr>"

section \<open>The scrapers\<close>

text \<open>
  Each scraper is a function of what its external calls give: \<open>Inl e\<close> when the call
  rejects with \<open>e\<close>, \<open>Inr v\<close> when it resolves to \<open>v\<close>. Its own result is the
  outcome of the promise it returns. Console output is left out.
\<close>

subsection \<open>Devpost\<close>

definition devpost_item :: "js_date \<Rightarrow> json \<Rightarrow> error + event" where
  "devpost_item env item =
     bind_r (get item ''title'') (\<lambda>title.
     bind_r (get item ''link'') (\<lambda>link.
     bind_r (get item ''contentSnippet'') (\<lambda>snippet.
     bind_r (if nullish snippet then Inr JUndefined else substring_0_200 snippet) (\<lambda>short.
     bind_r (get item ''pubDate'') (\<lambda>pubDate.
     bind_r (if truthy pubDate then iso_day env pubDate else Inr JNull) (\<lambda>day.
     Inr ((blank_event ''Devpost'')
       \<lparr>event_name := title,
        event_link := link,
        description := or_else short (JStr []),
        start_date := day,
        location := JStr ''Online'',
        tags := JArr [JStr ''Hackathon''],
        source := JStr ''rss''\<rparr>)))))))"

text \<open>\<open>v.split(' - ')[0]\<close>: a method of strings only.\<close>

fun split_dash_first :: "json \<Rightarrow> error + json" where
  "split_dash_first (JStr s) = Inr (JStr (split_head '' - '' s))"
| "split_dash_first v = Inl TypeError"

definition devpost_hackathon :: "json \<Rightarrow> error + event" where
  "devpost_hackathon h =
     bind_r (get h ''title'') (\<lambda>title.
     bind_r (get h ''url'') (\<lambda>url.
     bind_r (get h ''submission_period_dates'') (\<lambda>dates.
     bind_r (if nullish dates then Inr JUndefined else split_dash_first dates) (\<lambda>first_date.
     bind_r (get h ''location'') (\<lambda>loc.
     Inr ((blank_event ''Devpost'')
       \<lparr>event_name := title,
        event_link := url,
        start_date := or_else first_date JNull,
        location := or_else loc (JStr ''Online''),
        tags := JArr [JStr ''Hackathon'']\<rparr>))))))"

text \<open>
  \<open>parseURL\<close> is the outcome of \<open>rssParser.parseURL\<close>, \<open>api\<close> that of the
  \<open>axios.get\<close> of the fallback (its \<open>data\<close>), which runs only when the first block
  throws.
\<close>

definition scrapeDevpost :: "js_date \<Rightarrow> error + json \<Rightarrow> error + json \<Rightarrow> error + event list" where
  "scrapeDevpost env parseURL api =
     try_catch
       (bind_r parseURL (\<lambda>feed.
        bind_r (get feed ''items'') (\<lambda>items.
        bind_r (slice_0_20 items) (\<lambda>first.
        js_map (devpost_item env) first))))
       (\<lambda>error.
          try_catch
            (bind_r api (\<lambda>data.
             bind_r (get data ''hackathons'') (\<lambda>hackathons.
             if nullish hackathons then Inr []
             else bind_r (slice_0_20 hackathons) (\<lambda>first.
                  js_map devpost_hackathon first))))
            (\<lambda>apiError. Inr []))"

subsection \<open>Unstop\<close>

definition unstop_event :: "json \<Rightarrow> error + event" where
  "unstop_event h =
     bind_r (get h ''title'') (\<lambda>title.
     bind_r (get h ''public_url'') (\<lambda>public_url.
     bind_r (get h ''start_date'') (\<lambda>s.
     bind_r (get h ''end_date'') (\<lambda>e.
     bind_r (get h ''organisation'') (\<lambda>organisation.
     bind_r (if nullish organisation then Inr JUndefined else get organisation ''name'') (\<lambda>org_name.
     bind_r (get h ''type'') (\<lambda>type.
     bind_r (get h ''prize_money'') (\<lambda>prize_money.
     Inr ((blank_event ''Unstop'')
       \<lparr>event_name := title,
        event_link := JStr (''https://unstop.com'' @ to_string public_url),
        start_date := or_else s JNull,
        end_date := or_else e JNull,
        location := or_else org_name (JStr ''Various''),
        tags := JArr [JStr ''Hackathon'', type],
        prize := or_else prize_money JNull\<rparr>)))))))))"

text \<open>\<open>unstop\<close> is the outcome of the \<open>axios.get\<close> (its \<open>data\<close>).\<close>

definition scrapeUnstop :: "error + json \<Rightarrow> error + event list" where
  "scrapeUnstop unstop =
     try_catch
       (bind_r unstop (\<lambda>data.
        bind_r (get data ''data'') (\<lambda>d1.
        if nullish d1 then Inr []
        else bind_r (get d1 ''data'') (\<lambda>d2.
             if nullish d2 then Inr [] else js_map unstop_event d2))))
       (\<lambda>error. Inr [])"

subsection \<open>Dorahacks\<close>

text \<open>The callback \<open>({ node }) => ...\<close>: taking \<open>node\<close> out of the edge, then the event.\<close>

definition dorahacks_event :: "js_date \<Rightarrow> json \<Rightarrow> error + event" where
  "dorahacks_event env edge =
     bind_r (get edge ''node'') (\<lambda>node.
     bind_r (get node ''title'') (\<lambda>title.
     bind_r (get node ''slug'') (\<lambda>slug.
     bind_r (get node ''description'') (\<lambda>d.
     bind_r (if nullish d then Inr JUndefined else substring_0_200 d) (\<lambda>short.
     bind_r (get node ''startTime'') (\<lambda>startTime.
     bind_r (if truthy startTime then iso_day env startTime else Inr JNull) (\<lambda>s.
     bind_r (get node ''endTime'') (\<lambda>endTime.
     bind_r (if truthy endTime then iso_day env endTime else Inr JNull) (\<lambda>e.
     bind_r (get node ''totalReward'') (\<lambda>totalReward.
     Inr ((blank_event ''Dorahacks'')
       \<lparr>event_name := title,
        event_link := JStr (''https://dorahacks.io/buidl/'' @ to_string slug),
        description := short,
        start_date := s,
        end_date := e,
        location := JStr ''Online'',
        tags := JArr [JStr ''Hackathon'', JStr ''Web3''],
        prize := totalReward\<rparr>)))))))))))"

text \<open>\<open>dorahacks\<close> is the outcome of the \<open>axios.post\<close> (its \<open>data\<close>).\<close>

definition scrapeDorahacks :: "js_date \<Rightarrow> error + json \<Rightarrow> error + event list" where
  "scrapeDorahacks env dorahacks =
     try_catch
       (bind_r dorahacks (\<lambda>data.
        bind_r (get data ''data'') (\<lambda>d1.
        bind_r (if nullish d1 then Inr JUndefined else get d1 ''bountiesList'') (\<lambda>bountiesList.
        bind_r (if nullish bountiesList then Inr JUndefined else get bountiesList ''edges'') (\<lambda>edges.
        js_map (dorahacks_event env) (or_else edges (JArr [])))))))
       (\<lambda>error. Inr [])"

subsection \<open>HackerEarth\<close>

definition hackerearth_event :: "js_date \<Rightarrow> json \<Rightarrow> error + event" where
  "hackerearth_event env e =
     bind_r (get e ''title'') (\<lambda>title.
     bind_r (get e ''url'') (\<lambda>url.
     bind_r (get e ''start_tz'') (\<lambda>start_tz.
     bind_r (if truthy start_tz then iso_day env start_tz else Inr JNull) (\<lambda>s.
     bind_r (get e ''end_tz'') (\<lambda>end_tz.
     bind_r (if truthy end_tz then iso_day env end_tz else Inr JNull) (\<lambda>en.
     Inr ((blank_event ''HackerEarth'')
       \<lparr>event_name := title,
        event_link := url,
        start_date := s,
        end_date := en,
        location := JStr ''Online'',
        tags := JArr [JStr ''Coding'', JStr ''Competition'']\<rparr>)))))))"

text \<open>\<open>hackerearth\<close> is the outcome of the \<open>axios.get\<close> (its \<open>data\<close>).\<close>

definition scrapeHackerEarth :: "js_date \<Rightarrow> error + json \<Rightarrow> error + event list" where
  "scrapeHackerEarth env hackerearth =
     try_catch
       (bind_r hackerearth (\<lambda>data.
        bind_r (get data ''response'') (\<lambda>response.
        if nullish response then Inr []
        else bind_r (slice_0_20 response) (\<lambda>first.
             js_map (hackerearth_event env) first))))
       (\<lambda>error. Inr [])"

subsection \<open>Devfolio\<close>

text \<open>
  What the function given to \<open>page.evaluate\<close> reads of a card: for each of its four
  \<open>card.querySelector\<close> calls, \<open>None\<close> when nothing matches, otherwise the
  \<open>innerText\<close> of the element found (its \<open>href\<close> for the link).
\<close>

record dom_card =
  titleEl :: "string option"
  linkEl :: "string option"
  dateEl :: "string option"
  locationEl :: "string option"

record devfolio_result =
  r_event_name :: json
  r_event_link :: json
  r_start_date :: json
  r_location :: json

definition selectors :: "string list" where
  "selectors =
     [''div[class*=\"HackathonCard\"]'',
      ''article[class*=\"hackathon\"]'',
      ''div[data-testid*=\"hackathon\"]'',
      ''.hackathon-card'',
      ''[class*=\"card\"]'']"

text \<open>
  \<open>for (const selector of selectors) { cards = document.querySelectorAll(selector);
  if (cards.length > 0) break; }\<close>, the document being its \<open>querySelectorAll\<close>.
\<close>

fun select_cards :: "(string \<Rightarrow> dom_card list) \<Rightarrow> string list \<Rightarrow> dom_card list \<Rightarrow> dom_card list" where
  "select_cards document [] cards = cards"
| "select_cards document (selector # rest) cards =
     (let found = document selector
      in if length found > 0 then found else select_cards document rest found)"

text \<open>\<open>cards.forEach((card, index) => ...)\<close> over the accumulator \<open>results\<close>
  (\<open>a_card\<close> is the source's \<open>card\<close>).\<close>

fun devfolio_cards :: "dom_card list \<Rightarrow> nat \<Rightarrow> devfolio_result list \<Rightarrow> devfolio_result list" where
  "devfolio_cards [] index results = results"
| "devfolio_cards (a_card # rest) index results =
     (if index \<ge> 20 then devfolio_cards rest (index + 1) results
      else (case titleEl a_card of
              Some title \<Rightarrow>
                devfolio_cards rest (index + 1)
                  (results @
                   [\<lparr>r_event_name = JStr (trim title),
                     r_event_link = (case linkEl a_card of Some href \<Rightarrow> JStr href | None \<Rightarrow> JNull),
                     r_start_date = (case dateEl a_card of Some d \<Rightarrow> JStr (trim d) | None \<Rightarrow> JNull),
                     r_location =
                       (case locationEl a_card of
                          Some l \<Rightarrow> JStr (trim l)
                        | None \<Rightarrow> JStr ''Check website'')\<rparr>])
            | None \<Rightarrow> devfolio_cards rest (index + 1) results))"

definition devfolio_evaluate :: "(string \<Rightarrow> dom_card list) \<Rightarrow> devfolio_result list" where
  "devfolio_evaluate document = devfolio_cards (select_cards document selectors []) 0 []"

text \<open>\<open>{ website: 'Devfolio', ...e, tags: ['Hackathon'] }\<close>.\<close>

definition devfolio_format :: "devfolio_result \<Rightarrow> event" where
  "devfolio_format e =
     (blank_event ''Devfolio'')
       \<lparr>event_name := r_event_name e,
        event_link := r_event_link e,
        start_date := r_start_date e,
        location := r_location e,
        tags := JArr [JStr ''Hackathon'']\<rparr>"

text \<open>
  One run of the browser: \<open>launch_error\<close> is the exception of \<open>puppeteer.launch\<close>, if
  it throws; \<open>rendered\<close> is the outcome of the calls from \<open>browser.newPage\<close> to
  \<open>page.evaluate\<close>, an exception or the document the evaluated function queries;
  \<open>close_error\<close> is the exception of \<open>browser.close\<close>, if it throws.
\<close>

record browser_run =
  launch_error :: "error option"
  rendered :: "error + (string \<Rightarrow> dom_card list)"
  close_error :: "error option"

text \<open>
  \<open>try { ... } catch (error) { return []; } finally { if (browser) await browser.close(); }\<close>.
  When \<open>launch\<close> throws, \<open>browser\<close> is still undefined and nothing is closed.
  Otherwise the \<open>finally\<close> block runs after the \<open>return\<close> of either block, and an
  exception of \<open>browser.close\<close> replaces the value returned.
\<close>

definition scrapeDevfolio :: "browser_run \<Rightarrow> error + event list" where
  "scrapeDevfolio run =
     (case launch_error run of
        Some e \<Rightarrow> Inr []
      | None \<Rightarrow>
          (let returned =
                 try_catch
                   (bind_r (rendered run) (\<lambda>document.
                    Inr (map devfolio_format (devfolio_evaluate document))))
                   (\<lambda>error. Inr [])
           in (case close_error run of Some e \<Rightarrow> Inl e | None \<Rightarrow> returned)))"

subsection \<open>MLH\<close>

text \<open>
  What the callback of \<open>$('.event').each\<close> reads of an element: the three \<open>text()\<close>
  results, and the \<open>href\<close> attribute, \<open>None\<close> when \<open>attr\<close> gives \<open>undefined\<close>.
\<close>

record mlh_elem =
  title_text :: string
  href_attr :: "string option"
  date_text :: string
  location_text :: string

text \<open>\<open>$('.event').each((i, elem) => ...)\<close> over the accumulator \<open>events\<close>.\<close>

fun mlh_each :: "mlh_elem list \<Rightarrow> nat \<Rightarrow> event list \<Rightarrow> event list" where
  "mlh_each [] i events = events"
| "mlh_each (elem # rest) i events =
     (if i \<ge> 20 then mlh_each rest (i + 1) events
      else (let title = trim (title_text elem);
                link = href_attr elem;
                date = trim (date_text elem);
                loc = trim (location_text elem)
            in if title \<noteq> []
               then mlh_each rest (i + 1)
                      (events @
                       [(blank_event ''MLH'')
                          \<lparr>event_name := JStr title,
                           event_link :=
                             (case link of
                                Some l \<Rightarrow> if l \<noteq> [] then JStr (''https://mlh.io'' @ l) else JNull
                              | None \<Rightarrow> JNull),
                           start_date := JStr date,
                           location := or_else (JStr loc) (JStr ''Various''),
                           tags := JArr [JStr ''Hackathon'', JStr ''Student'']\<rparr>])
               else mlh_each rest (i + 1) events))"

text \<open>
  \<open>mlh\<close> is the outcome of the \<open>axios.get\<close> followed by \<open>load(data)\<close> and
  \<open>$('.event')\<close>: an exception or the elements selected.
\<close>

definition getMLHEvents :: "error + mlh_elem list \<Rightarrow> error + event list" where
  "getMLHEvents mlh =
     try_catch
       (bind_r mlh (\<lambda>elems. Inr (mlh_each elems 0 [])))
       (\<lambda>error. Inr [])"

section \<open>The aggregator of \<open>getAllEvents\<close>\<close>

record stats =
  success :: nat
  failed :: nat

text \<open>
  The body of \<open>results.forEach((result, index) => ...)\<close>: a result contributes when it
  is fulfilled and its value is not empty.
\<close>

definition aggregate_step :: "event list \<times> stats \<Rightarrow> event list settled \<Rightarrow> event list \<times> stats" where
  "aggregate_step acc result =
     (case acc of (allEvents, st) \<Rightarrow>
        (case result of
           Fulfilled v \<Rightarrow>
             if length v > 0 then (allEvents @ v, st\<lparr>success := success st + 1\<rparr>)
             else (allEvents, st\<lparr>failed := failed st + 1\<rparr>)
         | Rejected reason \<Rightarrow> (allEvents, st\<lparr>failed := failed st + 1\<rparr>)))"

definition aggregate :: "event list settled list \<Rightarrow> event list \<times> stats" where
  "aggregate results = foldl aggregate_step ([], \<lparr>success = 0, failed = 0\<rparr>) results"

section \<open>Removing duplicates\<close>

text \<open>
  Titles are sequences of 8-bit characters. \<open>toLowerCase\<close> is modelled on the letters
  A to Z; every other character is left as it is, and the pattern then deletes it. (The
  built-in follows the Unicode case mapping, which this leaves out.)
\<close>

definition lower_char :: "char \<Rightarrow> char" where
  "lower_char c =
     (case map_of (zip ''ABCDEFGHIJKLMNOPQRSTUVWXYZ'' ''abcdefghijklmnopqrstuvwxyz'') c of
        Some l \<Rightarrow> l
      | None \<Rightarrow> c)"

definition toLowerCase :: "string \<Rightarrow> string" where
  "toLowerCase s = map lower_char s"

text \<open>The characters the pattern \<open>/[^a-z0-9]/g\<close> leaves in place.\<close>

definition is_key_char :: "char \<Rightarrow> bool" where
  "is_key_char c = (c \<in> set ''abcdefghijklmnopqrstuvwxyz0123456789'')"

text \<open>
  \<open>event.event_name.toLowerCase().replace(/[^a-z0-9]/g, '')\<close>: only a string has the
  method \<open>toLowerCase\<close>; on every other value the expression throws a TypeError.
\<close>

definition normalizedTitle :: "event \<Rightarrow> error + string" where
  "normalizedTitle event =
     (case event_name event of
        JStr s \<Rightarrow> Inr (filter is_key_char (toLowerCase s))
      | _ \<Rightarrow> Inl TypeError)"

text \<open>
  \<open>allEvents.forEach(event => ...)\<close> over the two accumulators \<open>uniqueEvents\<close> and
  \<open>seenTitles\<close>.
\<close>

fun dedupe_loop :: "event list \<Rightarrow> event list \<Rightarrow> string set \<Rightarrow> error + event list" where
  "dedupe_loop [] uniqueEvents seenTitles = Inr uniqueEvents"
| "dedupe_loop (event # rest) uniqueEvents seenTitles =
     (case normalizedTitle event of
        Inl e \<Rightarrow> Inl e
      | Inr k \<Rightarrow>
          if k \<notin> seenTitles
          then dedupe_loop rest (uniqueEvents @ [event]) (insert k seenTitles)
          else dedupe_loop rest uniqueEvents seenTitles)"

definition dedupe :: "event list \<Rightarrow> error + event list" where
  "dedupe allEvents = dedupe_loop allEvents [] {}"

section \<open>Sorting by date\<close>

text \<open>
  The comparison function given to \<open>uniqueEvents.sort\<close>. Its result is a number;
  \<open>None\<close> stands for \<open>NaN\<close>, which the difference of two dates is when either date is
  invalid.
\<close>

definition compare_dates :: "js_date \<Rightarrow> event \<Rightarrow> event \<Rightarrow> int option" where
  "compare_dates env a b =
     (if \<not> truthy (start_date a) then Some 1
      else if \<not> truthy (start_date b) then Some (- 1)
      else (case (time_value env (start_date a), time_value env (start_date b)) of
              (Some x, Some y) \<Rightarrow> Some (x - y)
            | _ \<Rightarrow> None))"

text \<open>
  \<open>Array.prototype.sort\<close> is a built-in. The language fixes it to be stable and to read
  a \<open>NaN\<close> from the comparison function as 0; the engine that runs this code finds
  runs, extends them by binary insertion and merges them, and only ever asks whether a
  later element compares below an earlier one: \<open>goes_before cmp y x\<close> is that test,
  \<open>cmp(y, x) < 0\<close> for \<open>y\<close> after \<open>x\<close>.

  What is defined here is the stable insertion sort on that test, not the engine's
  algorithm. It stands for the engine on three kinds of lists, and the properties below
  are stated of these only:
  \<^item> lists on which the test is a strict weak order, which for \<open>compare_dates\<close> are
    the lists whose start dates, where present, all parse: every stable sort that asks
    only this test returns the same list;
  \<^item> lists in which no element compares below the one before it: the engine finds one
    ascending run and leaves the list as it is, and so does the insertion sort;
  \<^item> lists of two elements, where both make the one comparison.
  On other lists with a start date that does not parse the test is not transitive, and
  the order the engine returns depends on its algorithm.
\<close>

definition goes_before :: "('a \<Rightarrow> 'a \<Rightarrow> int option) \<Rightarrow> 'a \<Rightarrow> 'a \<Rightarrow> bool" where
  "goes_before cmp y x = (case cmp y x of Some v \<Rightarrow> v < 0 | None \<Rightarrow> False)"

fun sort_insert :: "('a \<Rightarrow> 'a \<Rightarrow> int option) \<Rightarrow> 'a \<Rightarrow> 'a list \<Rightarrow> 'a list" where
  "sort_insert cmp x [] = [x]"
| "sort_insert cmp x (y # ys) =
     (if goes_before cmp y x then y # sort_insert cmp x ys else x # y # ys)"

definition array_sort :: "('a \<Rightarrow> 'a \<Rightarrow> int option) \<Rightarrow> 'a list \<Rightarrow> 'a list" where
  "array_sort cmp xs = foldr (sort_insert cmp) xs []"

definition sortByDate :: "js_date \<Rightarrow> event list \<Rightarrow> event list" where
  "sortByDate env uniqueEvents = array_sort (compare_dates env) uniqueEvents"

text \<open>
  \<open>getAllEvents\<close> from the settled results on: aggregate, remove duplicates, sort. An
  exception in the middle rejects the promise \<open>getAllEvents\<close> returns.
\<close>

definition pipeline :: "js_date \<Rightarrow> event list settled list \<Rightarrow> error + event list" where
  "pipeline env results =
     (case dedupe (fst (aggregate results)) of
        Inl e \<Rightarrow> Inl e
      | Inr uniqueEvents \<Rightarrow> Inr (sortByDate env uniqueEvents))"

text \<open>What the outside gives to one run of \<open>getAllEvents\<close>.\<close>

record world =
  devpost_rss :: "error + json"
  devpost_api :: "error + json"
  unstop_api :: "error + json"
  dorahacks_api :: "error + json"
  devfolio_browser :: browser_run
  hackerearth_api :: "error + json"
  mlh_page :: "error + mlh_elem list"

text \<open>The array given to \<open>Promise.allSettled\<close>, settled, in its order.\<close>

definition allSettled :: "js_date \<Rightarrow> world \<Rightarrow> event list settled list" where
  "allSettled env w =
     [settle (scrapeDevpost env (devpost_rss w) (devpost_api w)),
      settle (scrapeUnstop (unstop_api w)),
      settle (scrapeDorahacks env (dorahacks_api w)),
      settle (scrapeDevfolio (devfolio_browser w)),
      settle (scrapeHackerEarth env (hackerearth_api w)),
      settle (getMLHEvents (mlh_page w))]"

definition getAllEvents :: "js_date \<Rightarrow> world \<Rightarrow> error + event list" where
  "getAllEvents env w = pipeline env (allSettled env w)"

section \<open>Notions the properties are stated with\<close>

text \<open>
  An adapter outcome contributes when it is fulfilled with one event or more; what it
  contributes is then its events.
\<close>

definition contributes :: "event list settled \<Rightarrow> bool" where
  "contributes r = (case r of Fulfilled v \<Rightarrow> length v \<ge> 1 | Rejected e \<Rightarrow> False)"

definition contribution :: "event list settled \<Rightarrow> event list" where
  "contribution r = (case r of Fulfilled v \<Rightarrow> v | Rejected e \<Rightarrow> [])"

text \<open>
  The comparison key in the words of the specification: the title in lower case, every
  character outside \<open>[a-z0-9]\<close> deleted.
\<close>

definition title_key :: "string \<Rightarrow> string" where
  "title_key s =
     filter (\<lambda>c. c \<in> set ''abcdefghijklmnopqrstuvwxyz0123456789'')
       (map (\<lambda>c. if c \<in> set ''ABCDEFGHIJKLMNOPQRSTUVWXYZ''
                 then char_of (of_char c + (32 :: nat)) else c) s)"

text \<open>The key of an event; an event whose title is not a string has none.\<close>

definition key_of :: "event \<Rightarrow> string" where
  "key_of e = (case event_name e of JStr s \<Rightarrow> title_key s | _ \<Rightarrow> [])"

definition has_title :: "event \<Rightarrow> bool" where
  "has_title e = (case event_name e of JStr s \<Rightarrow> True | _ \<Rightarrow> False)"

text \<open>The events that are the first of their key, among keys not seen before.\<close>

fun first_seen :: "string set \<Rightarrow> event list \<Rightarrow> event list" where
  "first_seen seen [] = []"
| "first_seen seen (e # es) =
     (if key_of e \<in> seen then first_seen seen es
      else e # first_seen (insert (key_of e) seen) es)"

text \<open>Three events of the kind the specification's examples use.\<close>

definition ai_hack :: event where
  "ai_hack = (blank_event ''Devpost'')\<lparr>event_name := JStr ''AI Hack'', start_date := JStr ''2025-03-01''\<rparr>"

definition ai_hack_again :: event where
  "ai_hack_again = (blank_event ''Unstop'')\<lparr>event_name := JStr ''AI Hack!!'', start_date := JNull\<rparr>"

definition web3_jam :: event where
  "web3_jam = (blank_event ''MLH'')\<lparr>event_name := JStr ''Web3 Jam'', start_date := JNull\<rparr>"

text \<open>
  An event has a start date when \<open>!event.start_date\<close> is false: the value is
  not \<open>null\<close>, not \<open>undefined\<close>, not the empty string and not 0.
\<close>

definition dated :: "event \<Rightarrow> bool" where
  "dated e = truthy (start_date e)"





text \<open>
  A \<open>Date\<close> for the examples: on the two ISO days it has the time values of the
  built-in, on numbers the number itself, and it finds every other string, such as
  \<open>TBD\<close>, invalid.
\<close>

definition sample_date :: js_date where
  "sample_date =
     \<lparr>time_value =
        (\<lambda>v. case v of
               JStr s \<Rightarrow>
                 if s = ''2025-01-01'' then Some 1735689600000
                 else if s = ''2025-03-01'' then Some 1740787200000
                 else None
             | JNum n \<Rightarrow> if \<bar>n\<bar> \<le> 8640000000000000 then Some n else None
             | _ \<Rightarrow> None),
      toISOString =
        (\<lambda>t. if t = 1735689600000 then ''2025-01-01T00:00:00.000Z''
             else if t = 1740787200000 then ''2025-03-01T00:00:00.000Z''
             else ''1970-01-01T00:00:00.000Z'')\<rparr>"

definition winter_jam :: event where
  "winter_jam = (blank_event ''HackerEarth'')\<lparr>event_name := JStr ''Winter Jam'', start_date := JStr ''2025-01-01''\<rparr>"

definition tbd_hack :: event where
  "tbd_hack = (blank_event ''Devfolio'')\<lparr>event_name := JStr ''TBD Hack'', start_date := JStr ''TBD''\<rparr>"

text \<open>No event of the list compares below the one before it.\<close>

definition in_order :: "js_date \<Rightarrow> event list \<Rightarrow> bool" where
  "in_order env xs = successively (\<lambda>x y. \<not> goes_before (compare_dates env) y x) xs"

text \<open>The test the sort makes: \<open>y\<close>, standing after \<open>x\<close>, compares below it.\<close>

abbreviation lt :: "js_date \<Rightarrow> event \<Rightarrow> event \<Rightarrow> bool" where
  "lt env y x \<equiv> goes_before (compare_dates env) y x"

text \<open>
  Inputs for the examples: a world in which every source is down, and payloads of the
  shapes the Unstop and Dorahacks scrapers read.
\<close>

definition down :: error where
  "down = TransportError ''network down''"

definition quiet_world :: world where
  "quiet_world =
     \<lparr>devpost_rss = Inl down, devpost_api = Inl down, unstop_api = Inl down,
      dorahacks_api = Inl down,
      devfolio_browser = \<lparr>launch_error = Some down, rendered = Inl down, close_error = None\<rparr>,
      hackerearth_api = Inl down, mlh_page = Inl down\<rparr>"

definition unstop_payload :: "json list \<Rightarrow> json" where
  "unstop_payload hs = JObj [(''data'', JObj [(''data'', JArr hs)])]"

definition nameless_hack :: json where
  "nameless_hack = JObj [(''public_url'', JStr ''/hackathons/1'')]"

definition blank_title_hack :: json where
  "blank_title_hack = JObj [(''title'', JStr []), (''public_url'', JStr ''/hackathons/2'')]"




definition crashed_run :: browser_run where
  "crashed_run = \<lparr>launch_error = None, rendered = Inl down, close_error = None\<rparr>"

definition unlaunched_run :: browser_run where
  "unlaunched_run = \<lparr>launch_error = Some down, rendered = Inl down, close_error = None\<rparr>"

definition unclosed_run :: browser_run where
  "unclosed_run = \<lparr>launch_error = None, rendered = Inl down, close_error = Some down\<rparr>"






section \<open>Properties of the aggregator\<close>

lemma aggregate_step_yes:
  "contributes r \<Longrightarrow>
   aggregate_step (acc, st) r = (acc @ contribution r, st\<lparr>success := success st + 1\<rparr>)"
  by (cases r) (auto simp add: aggregate_step_def contributes_def contribution_def)

lemma aggregate_step_no:
  "\<not> contributes r \<Longrightarrow> aggregate_step (acc, st) r = (acc, st\<lparr>failed := failed st + 1\<rparr>)"
  by (cases r) (auto simp add: aggregate_step_def contributes_def Suc_le_eq)

lemma aggregate_step_foldl:
  "foldl aggregate_step (acc, st) results =
     (acc @ concat (map contribution (filter contributes results)),
      st\<lparr>success := success st + length (filter contributes results),
         failed := failed st + length (filter (\<lambda>r. \<not> contributes r) results)\<rparr>)"
proof (induction results arbitrary: acc st)
  case Nil
  show ?case by simp
next
  case (Cons r rs)
  show ?case
  proof (cases "contributes r")
    case True
    then show ?thesis by (simp add: aggregate_step_yes Cons.IH)
  next
    case False
    then show ?thesis by (simp add: aggregate_step_no Cons.IH)
  qed
qed


text \<open>
  C7. The aggregator concatenates, in the order of the adapters, the events of exactly
  the outcomes that are fulfilled with one event or more, and counts those as successes;
  every other outcome, fulfilled and empty or rejected, is counted as a failure. With
  the outcomes [fulfilled with three events, rejected, fulfilled with none] it gives the
  three events, one success and two failures.
\<close>

theorem aggregate_counts:
  "aggregate results =
     (concat (map contribution (filter contributes results)),
      \<lparr>success = length (filter contributes results),
       failed = length (filter (\<lambda>r. \<not> contributes r) results)\<rparr>)
   \<and> aggregate [Fulfilled [e1, e2, e3], Rejected err, Fulfilled []] =
     ([e1, e2, e3], \<lparr>success = 1, failed = 2\<rparr>)"
proof
  show "aggregate results =
     (concat (map contribution (filter contributes results)),
      \<lparr>success = length (filter contributes results),
       failed = length (filter (\<lambda>r. \<not> contributes r) results)\<rparr>)"
    by (simp add: aggregate_def aggregate_step_foldl)
  show "aggregate [Fulfilled [e1, e2, e3], Rejected err, Fulfilled []] =
     ([e1, e2, e3], \<lparr>success = 1, failed = 2\<rparr>)"
    by (simp add: aggregate_def aggregate_step_def)
qed


section \<open>Properties of the deduplication\<close>

lemma lower_char_offset:
  "lower_char c =
     (if c \<in> set ''ABCDEFGHIJKLMNOPQRSTUVWXYZ'' then char_of (of_char c + (32 :: nat)) else c)"
  by (auto simp add: lower_char_def char_of_def bit_0)

lemma normalizedTitle_key: "has_title e \<Longrightarrow> normalizedTitle e = Inr (key_of e)"
proof -
  have low: "lower_char = (\<lambda>c. if c \<in> set ''ABCDEFGHIJKLMNOPQRSTUVWXYZ''
                 then char_of (of_char c + (32 :: nat)) else c)"
    by (rule ext) (rule lower_char_offset)
  have keep: "is_key_char = (\<lambda>c. c \<in> set ''abcdefghijklmnopqrstuvwxyz0123456789'')"
    by (rule ext) (simp only: is_key_char_def)
  assume "has_title e"
  then show ?thesis
    unfolding has_title_def normalizedTitle_def key_of_def title_key_def toLowerCase_def low keep
    by (cases "event_name e") simp_all
qed

lemma normalizedTitle_Inr: "normalizedTitle e = Inr k \<Longrightarrow> has_title e"
  by (auto simp add: has_title_def normalizedTitle_def split: json.splits)

lemma dedupe_loop_first_seen:
  "list_all has_title xs \<Longrightarrow> dedupe_loop xs u seen = Inr (u @ first_seen seen xs)"
  by (induction xs arbitrary: u seen) (simp_all add: normalizedTitle_key)

lemma dedupe_loop_Inr: "dedupe_loop xs u seen = Inr ys \<Longrightarrow> list_all has_title xs"
  by (induction xs arbitrary: u seen)
     (auto split: sum.splits if_splits dest: normalizedTitle_Inr)

lemma first_seen_keys:
  "set (map key_of (first_seen seen xs)) = set (map key_of xs) - seen"
  by (induction xs arbitrary: seen) auto

lemma first_seen_fresh: "x \<in> set (first_seen seen xs) \<Longrightarrow> key_of x \<notin> seen"
  using first_seen_keys [of seen xs] by auto

lemma first_seen_distinct: "distinct (map key_of (first_seen seen xs))"
  by (induction xs arbitrary: seen) (auto dest: first_seen_fresh)

lemma first_seen_subset: "set (first_seen seen xs) \<subseteq> set xs"
  by (induction xs arbitrary: seen) auto

lemma first_seen_fixed:
  "distinct (map key_of ys) \<Longrightarrow> set (map key_of ys) \<inter> seen = {} \<Longrightarrow> first_seen seen ys = ys"
  by (induction ys arbitrary: seen) auto

lemma first_seen_index:
  "first_seen seen xs =
     map (nth xs)
       (filter (\<lambda>i. key_of (xs ! i) \<notin> seen \<and> (\<forall>j<i. key_of (xs ! j) \<noteq> key_of (xs ! i)))
          [0..<length xs])"
proof (induction xs arbitrary: seen)
  case Nil
  show ?case by simp
next
  case (Cons e es)
  have shift: "[0..<length (e # es)] = 0 # map Suc [0..<length es]"
    by (simp add: upt_conv_Cons map_Suc_upt del: upt_Suc)
  have all_Suc: "\<And>i P. (\<forall>j<Suc i. P j) = (P 0 \<and> (\<forall>j<i. P (Suc j)))"
    by (metis less_Suc_eq_0_disj)
  show ?case
  proof (cases "key_of e \<in> seen")
    case True
    have "\<And>i. (key_of (es ! i) \<notin> seen \<and> key_of e \<noteq> key_of (es ! i) \<and> (\<forall>j<i. key_of (es ! j) \<noteq> key_of (es ! i)))
         = (key_of (es ! i) \<notin> seen \<and> (\<forall>j<i. key_of (es ! j) \<noteq> key_of (es ! i)))"
      using True by auto
    then show ?thesis unfolding shift
      using True by (simp add: filter_map comp_def all_Suc Cons.IH del: upt_Suc)
  next
    case False
    have "\<And>i. (key_of (es ! i) \<notin> seen \<and> key_of e \<noteq> key_of (es ! i) \<and> (\<forall>j<i. key_of (es ! j) \<noteq> key_of (es ! i)))
         = (key_of (es ! i) \<notin> insert (key_of e) seen \<and> (\<forall>j<i. key_of (es ! j) \<noteq> key_of (es ! i)))"
      by auto
    then show ?thesis unfolding shift
      using False by (simp add: filter_map comp_def all_Suc Cons.IH del: upt_Suc)
  qed
qed

text \<open>
  C3. On a list of events whose titles are strings, the deduplication step compares
  events by the key of their title (lower case, every character outside \<open>[a-z0-9]\<close>
  deleted), keeps exactly the events that no earlier event of the input shares its key
  with, in input order, whatever their source, and so gives a list whose keys are
  pairwise distinct.
\<close>

theorem dedupe_keeps_first:
  assumes "list_all has_title xs"
  shows "\<exists>ys. dedupe xs = Inr ys
     \<and> map normalizedTitle xs = map (\<lambda>e. Inr (key_of e)) xs
     \<and> ys = map (nth xs) (filter (\<lambda>i. \<forall>j<i. key_of (xs ! j) \<noteq> key_of (xs ! i)) [0..<length xs])
     \<and> distinct (map key_of ys)"
proof -
  have "dedupe xs = Inr (first_seen {} xs)"
    using assms by (simp add: dedupe_def dedupe_loop_first_seen)
  moreover have "map normalizedTitle xs = map (\<lambda>e. Inr (key_of e)) xs"
    using assms by (simp add: list_all_iff normalizedTitle_key)
  moreover have "first_seen {} xs =
      map (nth xs) (filter (\<lambda>i. \<forall>j<i. key_of (xs ! j) \<noteq> key_of (xs ! i)) [0..<length xs])"
    by (simp add: first_seen_index)
  ultimately show ?thesis
    using first_seen_distinct [of "{}" xs] by simp
qed

theorem dedupe_keeps_first_witness:
  "dedupe [ai_hack, ai_hack_again, web3_jam] = Inr [ai_hack, web3_jam]
   \<and> (\<exists>ys. dedupe [ai_hack, ai_hack_again, web3_jam] = Inr ys
     \<and> map normalizedTitle [ai_hack, ai_hack_again, web3_jam] =
         map (\<lambda>e. Inr (key_of e)) [ai_hack, ai_hack_again, web3_jam]
     \<and> ys = map (nth [ai_hack, ai_hack_again, web3_jam])
         (filter (\<lambda>i. \<forall>j<i. key_of ([ai_hack, ai_hack_again, web3_jam] ! j) \<noteq>
                              key_of ([ai_hack, ai_hack_again, web3_jam] ! i))
            [0..<length [ai_hack, ai_hack_again, web3_jam]])
     \<and> distinct (map key_of ys))"
proof
  show "dedupe [ai_hack, ai_hack_again, web3_jam] = Inr [ai_hack, web3_jam]"
    by (simp add: dedupe_def normalizedTitle_def toLowerCase_def lower_char_def is_key_char_def
        ai_hack_def ai_hack_again_def web3_jam_def blank_event_def)
  have "list_all has_title [ai_hack, ai_hack_again, web3_jam]"
    by (simp add: has_title_def ai_hack_def ai_hack_again_def web3_jam_def)
  then show "\<exists>ys. dedupe [ai_hack, ai_hack_again, web3_jam] = Inr ys
     \<and> map normalizedTitle [ai_hack, ai_hack_again, web3_jam] =
         map (\<lambda>e. Inr (key_of e)) [ai_hack, ai_hack_again, web3_jam]
     \<and> ys = map (nth [ai_hack, ai_hack_again, web3_jam])
         (filter (\<lambda>i. \<forall>j<i. key_of ([ai_hack, ai_hack_again, web3_jam] ! j) \<noteq>
                              key_of ([ai_hack, ai_hack_again, web3_jam] ! i))
            [0..<length [ai_hack, ai_hack_again, web3_jam]])
     \<and> distinct (map key_of ys)"
    by (rule dedupe_keeps_first)
qed

text \<open>
  C4. Deduplicating twice gives what deduplicating once gives: the second pass returns
  the list the first pass returned, and an exception of the first pass is the outcome of
  both sides.
\<close>

theorem dedupe_idempotent:
  "(case dedupe xs of Inl e \<Rightarrow> Inl e | Inr ys \<Rightarrow> dedupe ys) = dedupe xs"
proof (cases "dedupe xs")
  case (Inl e)
  then show ?thesis by simp
next
  case (Inr ys)
  then have t: "list_all has_title xs"
    by (auto simp add: dedupe_def dest: dedupe_loop_Inr)
  then have ys: "ys = first_seen {} xs"
    using Inr by (simp add: dedupe_def dedupe_loop_first_seen)
  have "list_all has_title ys"
    using t first_seen_subset [of "{}" xs] by (auto simp add: ys list_all_iff)
  then have "dedupe ys = Inr (first_seen {} ys)"
    by (simp add: dedupe_def dedupe_loop_first_seen)
  also have "first_seen {} ys = ys"
    by (rule first_seen_fixed) (simp_all add: ys first_seen_distinct)
  finally show ?thesis using Inr by simp
qed

section \<open>Properties of the sort\<close>

lemma lt_undated_left: "\<not> dated y \<Longrightarrow> \<not> lt env y x"
  by (simp add: goes_before_def compare_dates_def dated_def)


lemma lt_dated:
  "dated y \<Longrightarrow> dated x \<Longrightarrow>
   lt env y x = (case (time_value env (start_date y), time_value env (start_date x)) of
                   (Some a, Some b) \<Rightarrow> a < b | _ \<Rightarrow> False)"
  by (auto simp add: goes_before_def compare_dates_def dated_def split: option.splits)





lemma array_sort_Cons: "array_sort cmp (x # xs) = sort_insert cmp x (array_sort cmp xs)"
  by (simp add: array_sort_def)

lemma array_sort_Nil: "array_sort cmp [] = []"
  by (simp add: array_sort_def)













lemma settled_fixed:
  "successively (\<lambda>a b. \<not> lt env b a) ys \<Longrightarrow> array_sort (compare_dates env) ys = ys"
proof (induction ys)
  case Nil
  show ?case by (simp add: array_sort_Nil)
next
  case (Cons y ys)
  have "successively (\<lambda>a b. \<not> lt env b a) ys"
    using Cons.prems by (cases ys) simp_all
  then have "array_sort (compare_dates env) ys = ys"
    by (rule Cons.IH)
  then show ?case
    using Cons.prems by (cases ys) (simp_all add: array_sort_Cons)
qed





lemma in_order_unchanged: "in_order env xs \<Longrightarrow> sortByDate env xs = xs"
  by (simp add: in_order_def sortByDate_def settled_fixed)

lemma unparseable_not_passed:
  assumes "dated a" and "time_value env (start_date a) = None"
  shows "\<not> lt env y a"
  using assms by (cases "dated y") (simp_all add: lt_undated_left lt_dated split: option.splits)

text \<open>
  C6 (amended). An event whose start date is present but is not a valid date is not
  ordered as an event without a date is: the comparison gives \<open>NaN\<close> against every
  event with a start date and a negative number against every event without one (a
  positive number the other way round), so put in front of a list that is in order,
  validly dated events included, it stays in front and the list is returned as it is.
\<close>

theorem unparseable_date_order:
  assumes "dated a" and "time_value env (start_date a) = None"
  shows "compare_dates env a b = (if dated b then None else Some (- 1))
     \<and> compare_dates env b a = (if dated b then None else Some 1)
     \<and> (in_order env xs \<longrightarrow> sortByDate env (a # xs) = a # xs)"
proof -
  have "in_order env (a # xs)" if "in_order env xs"
    using that unparseable_not_passed [OF assms] by (cases xs) (simp_all add: in_order_def)
  then have "in_order env xs \<longrightarrow> sortByDate env (a # xs) = a # xs"
    by (simp add: in_order_unchanged)
  then show ?thesis
    using assms by (auto simp add: compare_dates_def dated_def split: option.splits)
qed

theorem unparseable_date_order_witness:
  "compare_dates sample_date tbd_hack winter_jam = None
   \<and> compare_dates sample_date winter_jam tbd_hack = None
   \<and> compare_dates sample_date tbd_hack web3_jam = Some (- 1)
   \<and> in_order sample_date [winter_jam, ai_hack, web3_jam]
   \<and> sortByDate sample_date [tbd_hack, winter_jam, ai_hack, web3_jam] =
       [tbd_hack, winter_jam, ai_hack, web3_jam]"
proof -
  have d: "dated tbd_hack"
    by (simp add: dated_def tbd_hack_def blank_event_def)
  have u: "time_value sample_date (start_date tbd_hack) = None"
    by (simp add: sample_date_def tbd_hack_def blank_event_def)
  have w: "dated winter_jam" and j: "\<not> dated web3_jam"
    by (simp_all add: dated_def winter_jam_def web3_jam_def blank_event_def)
  have o: "in_order sample_date [winter_jam, ai_hack, web3_jam]"
    by (simp add: in_order_def goes_before_def compare_dates_def sample_date_def
        winter_jam_def ai_hack_def web3_jam_def blank_event_def)
  from unparseable_date_order [OF d u, of winter_jam "[winter_jam, ai_hack, web3_jam]"] w o
  have 1: "compare_dates sample_date tbd_hack winter_jam = None"
    and 2: "compare_dates sample_date winter_jam tbd_hack = None"
    and 3: "sortByDate sample_date [tbd_hack, winter_jam, ai_hack, web3_jam] =
       [tbd_hack, winter_jam, ai_hack, web3_jam]"
    by simp_all
  from unparseable_date_order [OF d u, of web3_jam "[]"] j
  have 4: "compare_dates sample_date tbd_hack web3_jam = Some (- 1)"
    by simp
  show ?thesis using 1 2 3 4 o by blast
qed

text \<open>
  C6 as stated fails: the event with the unparseable date stays before the validly
  dated one, where an event without a date is moved after it.
\<close>

theorem unparseable_counterexample:
  "sortByDate sample_date [tbd_hack, winter_jam] = [tbd_hack, winter_jam]
   \<and> sortByDate sample_date [web3_jam, winter_jam] = [winter_jam, web3_jam]"
  by (simp add: sortByDate_def array_sort_def goes_before_def
      compare_dates_def sample_date_def web3_jam_def tbd_hack_def
      winter_jam_def blank_event_def)

section \<open>Properties of the scrapers\<close>

lemma try_catch_returns:
  "(\<And>e. \<exists>v. handler e = Inr v) \<Longrightarrow> \<exists>v. try_catch body handler = Inr v"
  by (cases body) (simp_all add: try_catch_def)

lemma try_catch_fail: "try_catch (bind_r (Inl e) f) handler = handler e"
  by (simp add: try_catch_def bind_r_def)

lemma scrapeDevpost_returns: "\<exists>evs. scrapeDevpost env rss api = Inr evs"
  unfolding scrapeDevpost_def by (intro try_catch_returns) simp

lemma scrapeUnstop_returns: "\<exists>evs. scrapeUnstop u = Inr evs"
  unfolding scrapeUnstop_def by (intro try_catch_returns) simp

lemma scrapeDorahacks_returns: "\<exists>evs. scrapeDorahacks env d = Inr evs"
  unfolding scrapeDorahacks_def by (intro try_catch_returns) simp

lemma scrapeHackerEarth_returns: "\<exists>evs. scrapeHackerEarth env h = Inr evs"
  unfolding scrapeHackerEarth_def by (intro try_catch_returns) simp

lemma getMLHEvents_returns: "\<exists>evs. getMLHEvents m = Inr evs"
  unfolding getMLHEvents_def by (intro try_catch_returns) simp

lemma scrapeDevfolio_rejects:
  "scrapeDevfolio run = Inl e \<longleftrightarrow> launch_error run = None \<and> close_error run = Some e"
  by (cases "rendered run")
     (auto simp add: scrapeDevfolio_def try_catch_def bind_r_def Let_def split: option.splits)

text \<open>
  What the scrapers do catch: five of them return a list whatever their external calls
  and their mapping do, and the empty list when the fetch fails. Devfolio does so
  whenever \<open>browser.close\<close> does not throw; the exception of \<open>browser.close\<close> is the
  only one it can be rejected with.
\<close>

lemma scrapers_return:
  "(\<exists>evs. scrapeDevpost env rss api = Inr evs)
   \<and> scrapeDevpost env (Inl err) (Inl err') = Inr []
   \<and> (\<exists>evs. scrapeUnstop u = Inr evs) \<and> scrapeUnstop (Inl err) = Inr []
   \<and> (\<exists>evs. scrapeDorahacks env d = Inr evs) \<and> scrapeDorahacks env (Inl err) = Inr []
   \<and> (\<exists>evs. scrapeHackerEarth env h = Inr evs) \<and> scrapeHackerEarth env (Inl err) = Inr []
   \<and> (\<exists>evs. getMLHEvents m = Inr evs) \<and> getMLHEvents (Inl err) = Inr []
   \<and> (close_error run = None \<longrightarrow>
        (\<exists>evs. scrapeDevfolio run = Inr evs)
        \<and> (launch_error run = Some err \<longrightarrow> scrapeDevfolio run = Inr [])
        \<and> (rendered run = Inl err \<longrightarrow> scrapeDevfolio run = Inr []))
   \<and> (scrapeDevfolio run = Inl err \<longrightarrow> close_error run = Some err)"
proof -
  have a: "scrapeDevpost env (Inl err) (Inl err') = Inr []"
    by (simp add: scrapeDevpost_def try_catch_fail)
  have b: "scrapeUnstop (Inl err) = Inr []"
    by (simp add: scrapeUnstop_def try_catch_fail)
  have c: "scrapeDorahacks env (Inl err) = Inr []"
    by (simp add: scrapeDorahacks_def try_catch_fail)
  have d: "scrapeHackerEarth env (Inl err) = Inr []"
    by (simp add: scrapeHackerEarth_def try_catch_fail)
  have e: "getMLHEvents (Inl err) = Inr []"
    by (simp add: getMLHEvents_def try_catch_fail)
  have f: "close_error run = None \<Longrightarrow> \<exists>evs. scrapeDevfolio run = Inr evs"
    using scrapeDevfolio_rejects [of run] by (cases "scrapeDevfolio run") auto
  have g: "close_error run = None \<Longrightarrow> launch_error run = Some err \<Longrightarrow> scrapeDevfolio run = Inr []"
    by (simp add: scrapeDevfolio_def)
  have h: "close_error run = None \<Longrightarrow> rendered run = Inl err \<Longrightarrow> scrapeDevfolio run = Inr []"
    by (simp add: scrapeDevfolio_def try_catch_fail Let_def split: option.splits)
  have i: "scrapeDevfolio run = Inl err \<Longrightarrow> close_error run = Some err"
    by (simp add: scrapeDevfolio_rejects)
  show ?thesis
    using scrapeDevpost_returns scrapeUnstop_returns scrapeDorahacks_returns
      scrapeHackerEarth_returns getMLHEvents_returns a b c d e f g h i
    by blast
qed


lemma scrapers_return_example:
  "scrapeDevfolio crashed_run = Inr []
   \<and> scrapeDevfolio unlaunched_run = Inr []
   \<and> scrapeUnstop (Inr (unstop_payload [JNull])) = Inr []"
proof -
  have c: "close_error crashed_run = None" and r: "rendered crashed_run = Inl down"
    by (simp_all add: crashed_run_def)
  have 1: "scrapeDevfolio crashed_run = Inr []"
    using scrapers_return [where run = crashed_run and err = down] c r by blast
  have "close_error unlaunched_run = None" and "launch_error unlaunched_run = Some down"
    by (simp_all add: unlaunched_run_def)
  then have 2: "scrapeDevfolio unlaunched_run = Inr []"
    using scrapers_return [where run = unlaunched_run and err = down] by blast
  have 3: "scrapeUnstop (Inr (unstop_payload [JNull])) = Inr []"
    by (simp add: scrapeUnstop_def unstop_payload_def unstop_event_def try_catch_def bind_r_def)
  show ?thesis using 1 2 3 by blast
qed

text \<open>
  C9, at the input where the code departs from it: the browser is launched, the page
  fails to render, the \<open>catch\<close> block returns the empty list, and \<open>browser.close\<close>
  then throws in the \<open>finally\<close> block; the scraper is rejected with that exception
  in place of returning a list.
\<close>

theorem devfolio_close_rejects:
  "launch_error unclosed_run = None \<and> rendered unclosed_run = Inl down
   \<and> close_error unclosed_run = Some down
   \<and> scrapeDevfolio unclosed_run = Inl down"
  by (simp add: scrapeDevfolio_def unclosed_run_def)



























text \<open>
  C1, at the input where the code departs from it: Unstop sends one record whose title
  is the empty string, and the event with the empty name is the output of the run.
\<close>

theorem blank_title_reaches_output:
  "getAllEvents sample_date (quiet_world\<lparr>unstop_api := Inr (unstop_payload [blank_title_hack])\<rparr>) =
     Inr [(blank_event ''Unstop'')
            \<lparr>event_name := JStr [],
             event_link := JStr ''https://unstop.com/hackathons/2'',
             start_date := JNull, end_date := JNull,
             location := JStr ''Various'',
             tags := JArr [JStr ''Hackathon'', JUndefined],
             prize := JNull\<rparr>]"
  by (simp add: getAllEvents_def pipeline_def allSettled_def quiet_world_def down_def
      scrapeDevpost_def scrapeUnstop_def scrapeDorahacks_def scrapeDevfolio_def
      scrapeHackerEarth_def getMLHEvents_def try_catch_def bind_r_def settle_def
      unstop_payload_def blank_title_hack_def unstop_event_def or_else_def blank_event_def
      aggregate_def aggregate_step_def dedupe_def normalizedTitle_def toLowerCase_def
      sortByDate_def array_sort_def)

text \<open>
  C2, at the input where the code departs from it: Unstop sends one record with no
  title, and \<open>getAllEvents\<close> is rejected with the TypeError of \<open>toLowerCase\<close>.
\<close>

theorem missing_title_rejects:
  "getAllEvents sample_date (quiet_world\<lparr>unstop_api := Inr (unstop_payload [nameless_hack])\<rparr>) =
     Inl TypeError"
  by (simp add: getAllEvents_def pipeline_def allSettled_def quiet_world_def down_def
      scrapeDevpost_def scrapeUnstop_def scrapeDorahacks_def scrapeDevfolio_def
      scrapeHackerEarth_def getMLHEvents_def try_catch_def bind_r_def settle_def
      unstop_payload_def nameless_hack_def unstop_event_def or_else_def blank_event_def
      aggregate_def aggregate_step_def dedupe_def normalizedTitle_def)

end
